theory Spec2Isabelle
  imports Main "HOL-Library.Word"
begin

section \<open>The image intake and preview controller of \<^verbatim>\<open>src/App.tsx\<close>\<close>

text \<open>
  The component \<^verbatim>\<open>App\<close> keeps four pieces of React state and one ref, and talks to the
  browser (object URLs, the console, a download link) and to the library function
  \<^verbatim>\<open>removeBackground\<close>. The handlers are embedded as functions on one record that holds
  the React state together with what the handlers do to the browser, so that every
  effect of a handler is a field of the record it returns.
\<close>

subsection \<open>Strings\<close>

text \<open>
  A JavaScript string is a sequence of UTF-16 code units. The handlers only compare
  code units, take a prefix and concatenate. \<open>js\<close> writes an ASCII literal of the
  source as such a sequence.
\<close>

type_synonym code_unit = "16 word"
type_synonym jsstring = "code_unit list"

definition unit_of :: "char \<Rightarrow> code_unit" where
  "unit_of c = of_nat (of_char c)"

definition js :: "string \<Rightarrow> jsstring" where
  "js cs = map unit_of cs"

text \<open>\<^verbatim>\<open>String.prototype.startsWith(p)\<close>: \<open>p\<close> is a prefix of the string.\<close>

definition startsWith :: "jsstring \<Rightarrow> jsstring \<Rightarrow> bool" where
  "startsWith s p = (take (length p) s = p)"

subsection \<open>Data\<close>

type_synonym bytes = "8 word list"

text \<open>An object URL (\<^verbatim>\<open>blob:...\<close>), identified by the serial number of its creation.\<close>

type_synonym url = nat

text \<open>The browser's \<^verbatim>\<open>File\<close>: the three attributes the handlers read, and its content.\<close>

record File =
  file_name :: jsstring
  file_type :: jsstring
  file_size :: nat
  file_bytes :: bytes

text \<open>\<^verbatim>\<open>interface ProcessedImage\<close> (lines 5 to 9).\<close>

record ProcessedImage =
  original :: url
  processed :: url
  name :: jsstring

text \<open>
  A call of \<^verbatim>\<open>handleFile\<close> suspended at its \<^verbatim>\<open>await\<close> (line 57): the locals the rest of
  the function body reads.
\<close>

record suspended =
  the_file :: File
  originalUrl :: url

text \<open>How the promise of \<^verbatim>\<open>removeBackground\<close> settles: with a blob, or with a thrown value.\<close>

datatype settled = Fulfilled bytes | Rejected jsstring

text \<open>
  The state. The first four fields are the \<^verbatim>\<open>useState\<close> cells of lines 12 to 15;
  \<open>fileInputRef\<close> is \<^verbatim>\<open>fileInputRef.current\<close>: \<open>None\<close> for \<^verbatim>\<open>null\<close> (the input element is not
  mounted), otherwise the \<^verbatim>\<open>value\<close> of the mounted input element. The other fields
  record the effects outside the component: the object URLs that were created and
  not revoked, the number of object URLs created so far, the calls made to
  \<^verbatim>\<open>removeBackground\<close>, what was written with \<^verbatim>\<open>console.error\<close>, the downloads triggered
  by a click on a link (its \<^verbatim>\<open>href\<close> and \<^verbatim>\<open>download\<close> attributes), and the calls of
  \<^verbatim>\<open>handleFile\<close> that wait at their \<^verbatim>\<open>await\<close>.
\<close>

record app =
  dragActive :: bool
  processing :: bool
  processedImage :: "ProcessedImage option"
  error :: "jsstring option"
  fileInputRef :: "jsstring option"
  objectUrls :: "(url \<times> bytes) list"
  urlSerial :: nat
  removeBackgroundCalls :: "File list"
  consoleErrors :: "(jsstring \<times> jsstring) list"
  downloads :: "(url \<times> jsstring) list"
  awaiting :: "suspended list"

text \<open>The component as first rendered: the initial values of lines 12 to 16.\<close>

definition initial :: app where
  "initial = \<lparr>dragActive = False, processing = False, processedImage = None, error = None,
     fileInputRef = Some [], objectUrls = [], urlSerial = 0, removeBackgroundCalls = [],
     consoleErrors = [], downloads = [], awaiting = []\<rparr>"

subsection \<open>The browser\<close>

text \<open>
  \<^verbatim>\<open>URL.createObjectURL(data)\<close> returns a fresh URL and keeps the data reachable through it
  until \<^verbatim>\<open>URL.revokeObjectURL\<close> is called on it. The source never calls
  \<^verbatim>\<open>URL.revokeObjectURL\<close>, so no operation of this theory removes an entry of
  \<open>objectUrls\<close>.
\<close>

definition createObjectURL :: "bytes \<Rightarrow> app \<Rightarrow> url \<times> app" where
  "createObjectURL d s =
     (urlSerial s, s\<lparr>objectUrls := (urlSerial s, d) # objectUrls s, urlSerial := Suc (urlSerial s)\<rparr>)"

subsection \<open>The rendered view\<close>

text \<open>
  The conditional of lines 125, 196 and 215: the upload section when there is no
  result and nothing is processing, else the processing section when processing,
  else the results section. The file input and the drop zone exist only in the
  upload section, the two buttons only in the results section.
\<close>

datatype view = Upload | Processing | Results

definition view_of :: "app \<Rightarrow> view" where
  "view_of s =
     (if processedImage s = None \<and> \<not> processing s then Upload
      else if processing s then Processing
      else Results)"

subsection \<open>The handlers\<close>

text \<open>\<^verbatim>\<open>handleDrag\<close> (lines 18 to 26), on the event's \<^verbatim>\<open>type\<close>.\<close>

definition handleDrag :: "jsstring \<Rightarrow> app \<Rightarrow> app" where
  "handleDrag e_type s =
     (if e_type = js ''dragenter'' \<or> e_type = js ''dragover'' then s\<lparr>dragActive := True\<rparr>
      else if e_type = js ''dragleave'' then s\<lparr>dragActive := False\<rparr>
      else s)"

text \<open>
  \<^verbatim>\<open>handleFile\<close> (lines 38 to 71) up to its \<^verbatim>\<open>await\<close>: the two checks, each with its
  \<^verbatim>\<open>setError\<close> and \<^verbatim>\<open>return\<close>; then \<^verbatim>\<open>setError(null)\<close>, \<^verbatim>\<open>setProcessing(true)\<close>, the object
  URL of the file, and the call of \<^verbatim>\<open>removeBackground\<close>, at whose promise the function
  suspends.
\<close>

definition handleFile :: "File \<Rightarrow> app \<Rightarrow> app" where
  "handleFile file s =
     (if \<not> startsWith (file_type file) (js ''image/'') then
        s\<lparr>error := Some (js ''Please select a valid image file'')\<rparr>
      else if file_size file > 10 * 1024 * 1024 then
        s\<lparr>error := Some (js ''File size must be less than 10MB'')\<rparr>
      else
        (case createObjectURL (file_bytes file) (s\<lparr>error := None, processing := True\<rparr>) of
           (u, s1) \<Rightarrow>
             s1\<lparr>removeBackgroundCalls := removeBackgroundCalls s1 @ [file],
                awaiting := awaiting s1 @ [\<lparr>the_file = file, originalUrl = u\<rparr>]\<rparr>))"

text \<open>
  The rest of \<^verbatim>\<open>handleFile\<close>, run when the promise settles (lines 58 to 70): on a blob, its
  object URL and \<^verbatim>\<open>setProcessedImage\<close>; on a thrown value, \<^verbatim>\<open>console.error\<close> and
  \<^verbatim>\<open>setError\<close>; in both cases the \<^verbatim>\<open>finally\<close> block's \<^verbatim>\<open>setProcessing(false)\<close>.
\<close>

definition handleFile_resume :: "suspended \<Rightarrow> settled \<Rightarrow> app \<Rightarrow> app" where
  "handleFile_resume k r s =
     (case r of
        Fulfilled imageBlob \<Rightarrow>
          (case createObjectURL imageBlob s of
             (processedUrl, s1) \<Rightarrow>
               s1\<lparr>processedImage := Some \<lparr>original = originalUrl k, processed = processedUrl,
                                          name = file_name (the_file k)\<rparr>,
                  processing := False\<rparr>)
      | Rejected err \<Rightarrow>
          s\<lparr>consoleErrors := consoleErrors s @ [(js ''Background removal failed:'', err)],
            error := Some (js ''Failed to remove background. Please try again with a different image.''),
            processing := False\<rparr>)"

text \<open>
  \<^verbatim>\<open>handleDrop\<close> (lines 28 to 36) and \<^verbatim>\<open>handleFileInput\<close> (lines 73 to 77), on the list of
  files of the event.
\<close>

definition handleDrop :: "File list \<Rightarrow> app \<Rightarrow> app" where
  "handleDrop files s =
     (case files of
        [] \<Rightarrow> s\<lparr>dragActive := False\<rparr>
      | file # _ \<Rightarrow> handleFile file (s\<lparr>dragActive := False\<rparr>))"

definition handleFileInput :: "File list \<Rightarrow> app \<Rightarrow> app" where
  "handleFileInput files s = (case files of [] \<Rightarrow> s | file # _ \<Rightarrow> handleFile file s)"

text \<open>\<^verbatim>\<open>handleReset\<close> (lines 79 to 86).\<close>

definition handleReset :: "app \<Rightarrow> app" where
  "handleReset s =
     s\<lparr>processedImage := None, processing := False, error := None,
       fileInputRef := (case fileInputRef s of None \<Rightarrow> None | Some _ \<Rightarrow> Some [])\<rparr>"

text \<open>
  The pattern \<^verbatim>\<open>/\.[^/.]+$/\<close> of line 92 at one position of the string: a dot, then one or
  more code units that are neither a slash nor a dot, then the end of the string.
\<close>

fun matches_here :: "jsstring \<Rightarrow> bool" where
  "matches_here [] = False"
| "matches_here (c # rest) =
     (c = unit_of CHR ''.'' \<and> rest \<noteq> [] \<and>
      list_all (\<lambda>d. d \<noteq> unit_of CHR ''/'' \<and> d \<noteq> unit_of CHR ''.'') rest)"

text \<open>
  \<^verbatim>\<open>.replace(/\.[^/.]+$/, '')\<close>: the leftmost position where the pattern matches is found
  from left to right, and the match, which runs to the end of the string, is
  replaced by the empty string; with no match the string is returned as it is.
\<close>

fun replace_extension :: "jsstring \<Rightarrow> jsstring" where
  "replace_extension [] = []"
| "replace_extension (c # rest) =
     (if matches_here (c # rest) then [] else c # replace_extension rest)"

text \<open>
  \<^verbatim>\<open>handleDownload\<close> (lines 88 to 97): with a result, a link with the processed URL and the
  derived file name is added to the document, clicked and removed again.
\<close>

definition handleDownload :: "app \<Rightarrow> app" where
  "handleDownload s =
     (case processedImage s of
        None \<Rightarrow> s
      | Some img \<Rightarrow>
          s\<lparr>downloads := downloads s @
             [(processed img, js ''bg-removed-'' @ replace_extension (name img) @ js ''.png'')]\<rparr>)"

subsection \<open>The events of a session\<close>

text \<open>
  What can happen to the mounted component: a drag event on the drop zone (with its
  \<^verbatim>\<open>type\<close>), a drop and a change of the file input (with the files of the event), the
  settling of the promise of the \<open>i\<close>-th suspended call, and a click on one of the two
  buttons. An event reaches its handler only when the element that carries the
  handler is rendered (lines 142 to 151, 269 and 276); otherwise nothing happens.
\<close>

datatype event =
  Drag jsstring
| Drop "File list"
| Change "File list"
| Settle nat settled
| ClickReset
| ClickDownload

text \<open>
  The browser sets the \<^verbatim>\<open>value\<close> of a file input to the fake path of the first selected
  file (the empty string when nothing is selected) before the change event is
  delivered.
\<close>

definition fakepath :: "File list \<Rightarrow> jsstring" where
  "fakepath files =
     (case files of
        [] \<Rightarrow> []
      | file # _ \<Rightarrow> js ''C:'' @ [0x5C] @ js ''fakepath'' @ [0x5C] @ file_name file)"

definition deliver :: "event \<Rightarrow> app \<Rightarrow> app" where
  "deliver e s =
     (case e of
        Drag e_type \<Rightarrow> if view_of s = Upload then handleDrag e_type s else s
      | Drop files \<Rightarrow> if view_of s = Upload then handleDrop files s else s
      | Change files \<Rightarrow>
          if view_of s = Upload then handleFileInput files (s\<lparr>fileInputRef := Some (fakepath files)\<rparr>)
          else s
      | Settle i r \<Rightarrow>
          if i < length (awaiting s) then
            handleFile_resume (awaiting s ! i) r
              (s\<lparr>awaiting := take i (awaiting s) @ drop (Suc i) (awaiting s)\<rparr>)
          else s
      | ClickReset \<Rightarrow> if view_of s = Results then handleReset s else s
      | ClickDownload \<Rightarrow> if view_of s = Results then handleDownload s else s)"

text \<open>
  After the handler, React renders again: the file input is mounted (a new element
  has the empty value) exactly when the upload section is shown, and the ref is
  \<^verbatim>\<open>null\<close> otherwise.
\<close>

definition render :: "app \<Rightarrow> app" where
  "render s =
     s\<lparr>fileInputRef :=
         (if view_of s = Upload then (case fileInputRef s of None \<Rightarrow> Some [] | Some v \<Rightarrow> Some v)
          else None)\<rparr>"

definition step :: "event \<Rightarrow> app \<Rightarrow> app" where
  "step e s = render (deliver e s)"

fun run :: "event list \<Rightarrow> app \<Rightarrow> app" where
  "run [] s = s"
| "run (e # es) s = run es (step e s)"

subsection \<open>Predicates on files and states\<close>

text \<open>A file passes both checks of \<^verbatim>\<open>handleFile\<close>: neither condition of lines 39 and 44 holds.\<close>

definition passes_checks :: "File \<Rightarrow> bool" where
  "passes_checks file =
     (startsWith (file_type file) (js ''image/'') \<and> \<not> file_size file > 10 * 1024 * 1024)"

text \<open>
  While the processing flag is set exactly one call waits and there is no result;
  while it is not set no call waits.
\<close>

definition one_in_flight :: "app \<Rightarrow> bool" where
  "one_in_flight s =
     (if processing s then length (awaiting s) = 1 \<and> processedImage s = None
      else awaiting s = [])"

subsection \<open>The file name of the download, as the specification words it\<close>

text \<open>
  The specification derives the file name from the original name with the extension
  stripped. The extension of a name is what follows its last full stop, when that is
  at least one code unit and has no slash in it; stripping it removes the full stop
  and what follows. A name with no such extension is left as it is.
\<close>

definition extension_of :: "jsstring \<Rightarrow> jsstring" where
  "extension_of n = rev (takeWhile (\<lambda>c. c \<noteq> unit_of CHR ''.'') (rev n))"

definition original_stem :: "jsstring \<Rightarrow> jsstring" where
  "original_stem n =
     (if unit_of CHR ''.'' \<in> set n \<and> extension_of n \<noteq> [] \<and> unit_of CHR ''/'' \<notin> set (extension_of n)
      then take (length n - Suc (length (extension_of n))) n
      else n)"

subsection \<open>Files and sessions used as examples\<close>

definition doc_pdf :: File where
  "doc_pdf = \<lparr>file_name = js ''doc.pdf'', file_type = js ''application/pdf'',
     file_size = 4096, file_bytes = [0x25, 0x50, 0x44, 0x46]\<rparr>"

definition big_pdf :: File where
  "big_pdf = \<lparr>file_name = js ''big.pdf'', file_type = js ''application/pdf'',
     file_size = 11 * 1024 * 1024, file_bytes = [0x25, 0x50, 0x44, 0x46]\<rparr>"

definition big_png :: File where
  "big_png = \<lparr>file_name = js ''big.png'', file_type = js ''image/png'',
     file_size = 11 * 1024 * 1024, file_bytes = [0x89, 0x50, 0x4E, 0x47]\<rparr>"

definition exact_png :: File where
  "exact_png = \<lparr>file_name = js ''exact.png'', file_type = js ''image/png'',
     file_size = 10 * 1024 * 1024, file_bytes = [0x89, 0x50, 0x4E, 0x47]\<rparr>"

definition cat_jpg :: File where
  "cat_jpg = \<lparr>file_name = js ''cat.jpg'', file_type = js ''image/jpeg'',
     file_size = 2 * 1024 * 1024, file_bytes = [0xFF, 0xD8, 0xFF, 0xE0]\<rparr>"

definition dog_png :: File where
  "dog_png = \<lparr>file_name = js ''dog.png'', file_type = js ''image/png'',
     file_size = 3 * 1024 * 1024, file_bytes = [0x89, 0x50, 0x4E, 0x47]\<rparr>"

text \<open>
  A session: \<^verbatim>\<open>cat.jpg\<close> is dropped and the call succeeds. Then, in the longer sessions,
  the result is reset, and \<^verbatim>\<open>dog.png\<close> is dropped and its call succeeds too.
\<close>

definition cat_session :: "event list" where
  "cat_session = [Drop [cat_jpg], Settle 0 (Fulfilled [0x89, 0x50, 0x4E, 0x47, 1])]"

definition cat_dog_session :: "event list" where
  "cat_dog_session =
     cat_session @ [ClickReset, Drop [dog_png], Settle 0 (Fulfilled [0x89, 0x50, 0x4E, 0x47, 2])]"

section \<open>Unfolding and evaluation\<close>

lemmas handler_defs =
  step_def deliver_def render_def view_of_def handleDrag_def handleDrop_def handleFileInput_def
  handleFile_def handleFile_resume_def handleReset_def handleDownload_def createObjectURL_def

lemmas example_defs =
  initial_def cat_session_def cat_dog_session_def cat_jpg_def dog_png_def doc_pdf_def
  big_png_def big_pdf_def exact_png_def startsWith_def js_def unit_of_def fakepath_def

lemma cat_state:
  "run cat_session initial =
     \<lparr>dragActive = False, processing = False,
      processedImage = Some \<lparr>original = 0, processed = 1, name = js ''cat.jpg''\<rparr>,
      error = None, fileInputRef = None,
      objectUrls = [(1, [0x89, 0x50, 0x4E, 0x47, 1]), (0, [0xFF, 0xD8, 0xFF, 0xE0])],
      urlSerial = 2, removeBackgroundCalls = [cat_jpg], consoleErrors = [], downloads = [],
      awaiting = []\<rparr>"
  by (simp add: handler_defs example_defs)

section \<open>Invariants of a session\<close>

lemma one_in_flight_initial: "one_in_flight initial"
  by (simp add: one_in_flight_def initial_def)

lemma one_in_flight_step: "one_in_flight s \<Longrightarrow> one_in_flight (step e s)"
  by (cases e)
    (auto simp add: one_in_flight_def handler_defs split: list.splits settled.splits if_splits)

lemma one_in_flight_run: "one_in_flight s \<Longrightarrow> one_in_flight (run es s)"
  by (induction es arbitrary: s) (simp_all add: one_in_flight_step)

lemma urls_kept_step: "\<exists>new. objectUrls (step e s) = new @ objectUrls s"
  by (cases e) (auto simp add: handler_defs split: list.splits settled.splits option.splits)

lemma urls_kept_run: "\<exists>new. objectUrls (run es s) = new @ objectUrls s"
proof (induction es arbitrary: s)
  case Nil
  show ?case by simp
next
  case (Cons e es)
  obtain a where a: "objectUrls (step e s) = a @ objectUrls s"
    using urls_kept_step by blast
  obtain b where b: "objectUrls (run es (step e s)) = b @ objectUrls (step e s)"
    using Cons.IH by blast
  show ?case using a b by simp
qed

section \<open>Validation\<close>

text \<open>
  C3. A file whose declared type does not start with \<^verbatim>\<open>image/\<close> gets the error message
  \<^verbatim>\<open>Please select a valid image file\<close> and nothing else happens: the processing flag
  and the rendered view are as before, \<^verbatim>\<open>removeBackground\<close> is not called and no call
  is left waiting.
\<close>

theorem invalid_type_rejected:
  assumes "\<not> startsWith (file_type file) (js ''image/'')"
  shows "handleFile file s = s\<lparr>error := Some (js ''Please select a valid image file'')\<rparr> \<and>
         processing (handleFile file s) = processing s \<and>
         view_of (handleFile file s) = view_of s \<and>
         removeBackgroundCalls (handleFile file s) = removeBackgroundCalls s \<and>
         awaiting (handleFile file s) = awaiting s"
  using assms by (simp add: handleFile_def view_of_def)

theorem invalid_type_rejected_witness:
  "\<not> startsWith (file_type doc_pdf) (js ''image/'') \<and>
   error (handleFile doc_pdf initial) = Some (js ''Please select a valid image file'') \<and>
   \<not> processing (handleFile doc_pdf initial) \<and>
   view_of (handleFile doc_pdf initial) = Upload \<and>
   removeBackgroundCalls (handleFile doc_pdf initial) = []"
proof -
  have ty: "\<not> startsWith (file_type doc_pdf) (js ''image/'')"
    by (simp add: doc_pdf_def startsWith_def js_def unit_of_def)
  from invalid_type_rejected [OF ty, of initial] ty show ?thesis
    by (simp add: initial_def view_of_def)
qed

text \<open>
  C4. For a file whose type starts with \<^verbatim>\<open>image/\<close>: with more than 10 MiB, that is
  10485760 bytes, it gets the error message about the size, \<^verbatim>\<open>removeBackground\<close> is not
  called and no call is left waiting; with 10485760 bytes or less the size check
  passes, so the error is cleared, the processing flag is set and \<^verbatim>\<open>removeBackground\<close> is
  called on the file.
\<close>

theorem size_limit:
  assumes "startsWith (file_type file) (js ''image/'')"
  shows "(10485760 < file_size file \<longrightarrow>
            handleFile file s = s\<lparr>error := Some (js ''File size must be less than 10MB'')\<rparr> \<and>
            removeBackgroundCalls (handleFile file s) = removeBackgroundCalls s \<and>
            awaiting (handleFile file s) = awaiting s) \<and>
         (file_size file \<le> 10485760 \<longrightarrow>
            error (handleFile file s) = None \<and>
            processing (handleFile file s) \<and>
            removeBackgroundCalls (handleFile file s) = removeBackgroundCalls s @ [file])"
  using assms by (simp add: handleFile_def createObjectURL_def)

theorem size_limit_witness:
  "startsWith (file_type big_png) (js ''image/'') \<and> 10485760 < file_size big_png \<and>
   error (handleFile big_png initial) = Some (js ''File size must be less than 10MB'') \<and>
   removeBackgroundCalls (handleFile big_png initial) = [] \<and>
   startsWith (file_type exact_png) (js ''image/'') \<and> file_size exact_png = 10485760 \<and>
   error (handleFile exact_png initial) = None \<and>
   processing (handleFile exact_png initial) \<and>
   removeBackgroundCalls (handleFile exact_png initial) = [exact_png]"
proof -
  have big: "startsWith (file_type big_png) (js ''image/'')"
    by (simp add: big_png_def startsWith_def js_def unit_of_def)
  have exact: "startsWith (file_type exact_png) (js ''image/'')"
    by (simp add: exact_png_def startsWith_def js_def unit_of_def)
  have sizes: "10485760 < file_size big_png" "file_size exact_png = 10485760"
    by (simp_all add: big_png_def exact_png_def)
  from size_limit [OF big, of initial] size_limit [OF exact, of initial] big exact sizes
  show ?thesis by (simp add: initial_def)
qed

text \<open>
  C9. The type is checked before the size: a file that fails both checks gets the
  message about the type, not the one about the size.
\<close>

theorem type_checked_first:
  assumes "\<not> startsWith (file_type file) (js ''image/'')"
    and "10 * 1024 * 1024 < file_size file"
  shows "error (handleFile file s) = Some (js ''Please select a valid image file'') \<and>
         error (handleFile file s) \<noteq> Some (js ''File size must be less than 10MB'')"
  using assms by (simp add: handleFile_def js_def unit_of_def)

theorem type_checked_first_witness:
  "\<not> startsWith (file_type big_pdf) (js ''image/'') \<and> 10 * 1024 * 1024 < file_size big_pdf \<and>
   error (handleFile big_pdf initial) = Some (js ''Please select a valid image file'') \<and>
   error (handleFile big_pdf initial) \<noteq> Some (js ''File size must be less than 10MB'')"
proof -
  have ty: "\<not> startsWith (file_type big_pdf) (js ''image/'')"
    by (simp add: big_pdf_def startsWith_def js_def unit_of_def)
  have sz: "10 * 1024 * 1024 < file_size big_pdf"
    by (simp add: big_pdf_def)
  from type_checked_first [OF ty sz, of initial] ty sz show ?thesis by blast
qed

text \<open>
  C10. When a file fails one of the two checks, \<^verbatim>\<open>handleFile\<close> changes the error message
  and nothing else: the state it returns is the state it was given with a new error,
  so the processing flag, the result, the dragging flag and the value of the file
  input are the same.
\<close>

theorem failed_validation_frame:
  assumes "\<not> startsWith (file_type file) (js ''image/'') \<or> 10 * 1024 * 1024 < file_size file"
  shows "handleFile file s = s\<lparr>error := error (handleFile file s)\<rparr> \<and>
         error (handleFile file s) \<noteq> None \<and>
         processing (handleFile file s) = processing s \<and>
         processedImage (handleFile file s) = processedImage s \<and>
         dragActive (handleFile file s) = dragActive s \<and>
         fileInputRef (handleFile file s) = fileInputRef s"
  using assms by (auto simp add: handleFile_def)

theorem failed_validation_frame_witness:
  "(\<not> startsWith (file_type doc_pdf) (js ''image/'')) \<and>
   handleFile doc_pdf initial = initial\<lparr>error := Some (js ''Please select a valid image file'')\<rparr> \<and>
   10 * 1024 * 1024 < file_size big_png \<and>
   handleFile big_png initial = initial\<lparr>error := Some (js ''File size must be less than 10MB'')\<rparr>"
proof -
  have ty: "\<not> startsWith (file_type doc_pdf) (js ''image/'')"
    by (simp add: doc_pdf_def startsWith_def js_def unit_of_def)
  have ty': "startsWith (file_type big_png) (js ''image/'')"
    by (simp add: big_png_def startsWith_def js_def unit_of_def)
  have sz: "10 * 1024 * 1024 < file_size big_png"
    by (simp add: big_png_def)
  have e1: "error (handleFile doc_pdf initial) = Some (js ''Please select a valid image file'')"
    using ty by (simp add: handleFile_def)
  have e2: "error (handleFile big_png initial) = Some (js ''File size must be less than 10MB'')"
    using ty' sz by (simp add: handleFile_def)
  from failed_validation_frame [of doc_pdf initial] failed_validation_frame [of big_png initial]
    ty sz e1 e2
  show ?thesis by simp
qed

section \<open>Dispatch and the outcome of the call\<close>

text \<open>
  C5. In the upload view, a first file that passes both checks, dropped or chosen
  with the file input, takes the controller to the processing view: the processing
  flag is set, one object URL is created for the bytes of the file, \<^verbatim>\<open>removeBackground\<close> is
  called once, on that file, and one call waits. When that call is fulfilled with a
  blob, the controller reaches the results view: the result holds the URL of the
  original, a new URL for the blob and the name of the file, the processing flag is
  cleared, and no further call of \<^verbatim>\<open>removeBackground\<close> was made.
\<close>

theorem valid_file_dispatched:
  assumes "view_of s = Upload"
    and "startsWith (file_type file) (js ''image/'')"
    and "file_size file \<le> 10 * 1024 * 1024"
    and "s1 = step (Drop (file # files)) s \<or> s1 = step (Change (file # files)) s"
    and "s2 = step (Settle (length (awaiting s)) (Fulfilled blob)) s1"
  shows "view_of s1 = Processing \<and> processing s1 \<and> processedImage s1 = None \<and>
         objectUrls s1 = (urlSerial s, file_bytes file) # objectUrls s \<and>
         removeBackgroundCalls s1 = removeBackgroundCalls s @ [file] \<and>
         awaiting s1 = awaiting s @ [\<lparr>the_file = file, originalUrl = urlSerial s\<rparr>] \<and>
         view_of s2 = Results \<and> \<not> processing s2 \<and>
         processedImage s2 =
           Some \<lparr>original = urlSerial s, processed = Suc (urlSerial s), name = file_name file\<rparr> \<and>
         objectUrls s2 = (Suc (urlSerial s), blob) # (urlSerial s, file_bytes file) # objectUrls s \<and>
         removeBackgroundCalls s2 = removeBackgroundCalls s @ [file] \<and>
         awaiting s2 = awaiting s"
  using assms by (auto simp add: handler_defs split: if_splits)

theorem valid_file_dispatched_witness:
  "view_of initial = Upload \<and> startsWith (file_type cat_jpg) (js ''image/'') \<and>
   file_size cat_jpg \<le> 10 * 1024 * 1024 \<and>
   view_of (step (Drop [cat_jpg]) initial) = Processing \<and>
   removeBackgroundCalls (step (Drop [cat_jpg]) initial) = [cat_jpg] \<and>
   objectUrls (step (Drop [cat_jpg]) initial) = [(0, file_bytes cat_jpg)] \<and>
   view_of (step (Settle 0 (Fulfilled [7])) (step (Drop [cat_jpg]) initial)) = Results \<and>
   processedImage (step (Settle 0 (Fulfilled [7])) (step (Drop [cat_jpg]) initial)) =
     Some \<lparr>original = 0, processed = 1, name = js ''cat.jpg''\<rparr> \<and>
   removeBackgroundCalls (step (Settle 0 (Fulfilled [7])) (step (Drop [cat_jpg]) initial)) = [cat_jpg]"
proof -
  have v: "view_of initial = Upload"
    by (simp add: view_of_def initial_def)
  have ty: "startsWith (file_type cat_jpg) (js ''image/'')"
    by (simp add: cat_jpg_def startsWith_def js_def unit_of_def)
  have sz: "file_size cat_jpg \<le> 10 * 1024 * 1024"
    by (simp add: cat_jpg_def)
  have how: "step (Drop [cat_jpg]) initial = step (Drop (cat_jpg # [])) initial \<or>
      step (Drop [cat_jpg]) initial = step (Change (cat_jpg # [])) initial"
    by simp
  have init: "awaiting initial = []" "urlSerial initial = 0" "objectUrls initial = []"
    "removeBackgroundCalls initial = []"
    by (simp_all add: initial_def)
  have nm: "file_name cat_jpg = js ''cat.jpg''"
    by (simp add: cat_jpg_def)
  from valid_file_dispatched [where blob = "[7]", OF v ty sz how refl] v ty sz init nm
  show ?thesis by simp
qed

text \<open>
  C6. When the call is rejected with any thrown value, the controller sets the one
  fixed error message, writes the thrown value to the console, leaves the result as
  it was, clears the processing flag, and neither calls \<^verbatim>\<open>removeBackground\<close> again nor
  leaves a further call waiting.
\<close>

theorem failure_handled:
  "error (handleFile_resume k (Rejected err) s) =
     Some (js ''Failed to remove background. Please try again with a different image.'') \<and>
   consoleErrors (handleFile_resume k (Rejected err) s) =
     consoleErrors s @ [(js ''Background removal failed:'', err)] \<and>
   processedImage (handleFile_resume k (Rejected err) s) = processedImage s \<and>
   \<not> processing (handleFile_resume k (Rejected err) s) \<and>
   removeBackgroundCalls (handleFile_resume k (Rejected err) s) = removeBackgroundCalls s \<and>
   awaiting (handleFile_resume k (Rejected err) s) = awaiting s \<and>
   objectUrls (handleFile_resume k (Rejected err) s) = objectUrls s"
  by (simp add: handleFile_resume_def)

text \<open>
  C8. In a session that starts with the component as first rendered, let \<open>s'\<close> be the
  state after an error: after a dropped or chosen file failed a check, or after a
  waiting call was rejected. Then \<open>s'\<close> has an error message, the processing flag is
  clear and there is no result, so the upload view is shown; and a file that passes
  the checks, dropped or chosen next with nothing in between, is sent to
  \<^verbatim>\<open>removeBackground\<close> and the processing view is shown.
\<close>

theorem errors_not_fatal:
  assumes "s = run es initial"
    and "(view_of s = Upload \<and> \<not> passes_checks file \<and>
            (s' = step (Drop (file # files)) s \<or> s' = step (Change (file # files)) s)) \<or>
         (i < length (awaiting s) \<and> s' = step (Settle i (Rejected err)) s)"
    and "passes_checks next_file"
  shows "error s' \<noteq> None \<and> \<not> processing s' \<and> processedImage s' = None \<and> view_of s' = Upload \<and>
         view_of (step (Drop (next_file # others)) s') = Processing \<and>
         view_of (step (Change (next_file # others)) s') = Processing \<and>
         removeBackgroundCalls (step (Drop (next_file # others)) s') =
           removeBackgroundCalls s' @ [next_file] \<and>
         removeBackgroundCalls (step (Change (next_file # others)) s') =
           removeBackgroundCalls s' @ [next_file]"
proof -
  have inv: "one_in_flight s"
    using assms(1) by (simp add: one_in_flight_run one_in_flight_initial)
  have err: "error s' \<noteq> None \<and> \<not> processing s' \<and> processedImage s' = None"
    using assms(2) inv
    by (auto simp add: passes_checks_def one_in_flight_def handler_defs split: if_splits)
  then have up: "view_of s' = Upload"
    by (simp add: view_of_def)
  have nxt: "view_of (step (Drop (next_file # others)) s') = Processing \<and>
         view_of (step (Change (next_file # others)) s') = Processing \<and>
         removeBackgroundCalls (step (Drop (next_file # others)) s') =
           removeBackgroundCalls s' @ [next_file] \<and>
         removeBackgroundCalls (step (Change (next_file # others)) s') =
           removeBackgroundCalls s' @ [next_file]"
    using err assms(3) by (simp add: passes_checks_def handler_defs)
  from err up nxt show ?thesis by simp
qed

theorem errors_not_fatal_witness:
  "\<not> passes_checks doc_pdf \<and> passes_checks cat_jpg \<and>
   view_of initial = Upload \<and>
   view_of (step (Drop [doc_pdf]) initial) = Upload \<and>
   error (step (Drop [doc_pdf]) initial) \<noteq> None \<and>
   view_of (step (Drop [cat_jpg]) (step (Drop [doc_pdf]) initial)) = Processing \<and>
   0 < length (awaiting (run [Drop [cat_jpg]] initial)) \<and>
   view_of (step (Settle 0 (Rejected (js ''out of memory''))) (run [Drop [cat_jpg]] initial)) = Upload \<and>
   error (step (Settle 0 (Rejected (js ''out of memory''))) (run [Drop [cat_jpg]] initial)) \<noteq> None \<and>
   view_of (step (Change [cat_jpg])
     (step (Settle 0 (Rejected (js ''out of memory''))) (run [Drop [cat_jpg]] initial))) = Processing"
proof -
  have bad: "\<not> passes_checks doc_pdf"
    by (simp add: passes_checks_def example_defs)
  have good: "passes_checks cat_jpg"
    by (simp add: passes_checks_def example_defs)
  have v: "view_of initial = Upload"
    by (simp add: view_of_def initial_def)
  have r0: "initial = run [] initial"
    by simp
  have w: "0 < length (awaiting (run [Drop [cat_jpg]] initial))"
    by (simp add: handler_defs example_defs)
  have a: "(view_of initial = Upload \<and> \<not> passes_checks doc_pdf \<and>
            (step (Drop [doc_pdf]) initial = step (Drop (doc_pdf # [])) initial \<or>
             step (Drop [doc_pdf]) initial = step (Change (doc_pdf # [])) initial)) \<or>
         (0 < length (awaiting initial) \<and>
            step (Drop [doc_pdf]) initial = step (Settle 0 (Rejected [])) initial)"
    using v bad by simp
  have b: "(view_of (run [Drop [cat_jpg]] initial) = Upload \<and> \<not> passes_checks doc_pdf \<and>
            (step (Settle 0 (Rejected (js ''out of memory''))) (run [Drop [cat_jpg]] initial) =
               step (Drop (doc_pdf # [])) (run [Drop [cat_jpg]] initial) \<or>
             step (Settle 0 (Rejected (js ''out of memory''))) (run [Drop [cat_jpg]] initial) =
               step (Change (doc_pdf # [])) (run [Drop [cat_jpg]] initial))) \<or>
         (0 < length (awaiting (run [Drop [cat_jpg]] initial)) \<and>
            step (Settle 0 (Rejected (js ''out of memory''))) (run [Drop [cat_jpg]] initial) =
              step (Settle 0 (Rejected (js ''out of memory''))) (run [Drop [cat_jpg]] initial))"
    using w by simp
  from errors_not_fatal [where others = "[]", OF r0 a good]
    errors_not_fatal [where others = "[]", OF refl b good]
    bad good v w
  show ?thesis by simp
qed

section \<open>Object URLs\<close>

text \<open>
  C1, as the code has it. \<^verbatim>\<open>handleReset\<close> clears the result, the processing flag and the
  error, so the upload view is shown; it empties the value of the file input when
  the input is mounted, and once the upload view is rendered the input is mounted
  with an empty value; everything else is as before. In particular the object URLs
  stay live: the two URLs of the result that was reset are not released.
\<close>

theorem reset_returns_to_upload:
  "processedImage (handleReset s) = None \<and> \<not> processing (handleReset s) \<and>
   error (handleReset s) = None \<and> view_of (handleReset s) = Upload \<and>
   fileInputRef (handleReset s) = (if fileInputRef s = None then None else Some []) \<and>
   fileInputRef (render (handleReset s)) = Some [] \<and>
   objectUrls (handleReset s) = objectUrls s \<and>
   handleReset s = s\<lparr>processedImage := None, processing := False, error := None,
                     fileInputRef := fileInputRef (handleReset s)\<rparr>"
  by (simp add: handleReset_def view_of_def render_def split: option.splits)

text \<open>
  C1, as stated, fails: after \<^verbatim>\<open>cat.jpg\<close> was processed, the result holds the URLs 0 and 1
  and the results view is shown; after the click on the reset button both URLs are
  still live.
\<close>

theorem reset_keeps_urls_live:
  "processedImage (run cat_session initial) = Some \<lparr>original = 0, processed = 1, name = js ''cat.jpg''\<rparr> \<and>
   view_of (run cat_session initial) = Results \<and>
   map fst (objectUrls (step ClickReset (run cat_session initial))) = [1, 0]"
  by (simp add: cat_state) (simp add: handler_defs)

text \<open>
  C2, as the code has it. The controller holds at most one result, in the one place
  that a fulfilled call overwrites with the URL of the original and a new URL for
  the blob. No object URL is ever released: over any sequence of events, every
  object URL that was live before is live after, and a fulfilled call adds its new
  URL to them.
\<close>

theorem object_urls_never_released:
  "(\<exists>new. objectUrls (run es s) = new @ objectUrls s) \<and>
   objectUrls (handleFile_resume k (Fulfilled blob) s) = (urlSerial s, blob) # objectUrls s \<and>
   processedImage (handleFile_resume k (Fulfilled blob) s) =
     Some \<lparr>original = originalUrl k, processed = urlSerial s, name = file_name (the_file k)\<rparr>"
  by (simp add: urls_kept_run) (simp add: handleFile_resume_def createObjectURL_def)

text \<open>
  C2, as stated, fails: \<^verbatim>\<open>cat.jpg\<close> is processed (URLs 0 and 1), the result is reset, and
  \<^verbatim>\<open>dog.png\<close> is processed (URLs 2 and 3). When the second result is live, the URLs of
  the first are live as well.
\<close>

theorem previous_urls_still_live:
  "processedImage (run cat_session initial) = Some \<lparr>original = 0, processed = 1, name = js ''cat.jpg''\<rparr> \<and>
   processedImage (run cat_dog_session initial) =
     Some \<lparr>original = 2, processed = 3, name = js ''dog.png''\<rparr> \<and>
   map fst (objectUrls (run cat_dog_session initial)) = [3, 2, 1, 0]"
  by (simp add: handler_defs example_defs)

section \<open>The name of the download\<close>

lemma matches_here_iff:
  "matches_here (c # rest) \<longleftrightarrow>
     c = unit_of CHR ''.'' \<and> rest \<noteq> [] \<and> unit_of CHR ''.'' \<notin> set rest \<and> unit_of CHR ''/'' \<notin> set rest"
  by (auto simp add: list_all_iff)

lemma replace_extension_no_dot:
  "unit_of CHR ''.'' \<notin> set n \<Longrightarrow> replace_extension n = n"
  by (induction n) auto

lemma replace_extension_last_dot:
  assumes "unit_of CHR ''.'' \<notin> set ext"
  shows "replace_extension (pre @ unit_of CHR ''.'' # ext) =
           (if ext \<noteq> [] \<and> unit_of CHR ''/'' \<notin> set ext then pre else pre @ unit_of CHR ''.'' # ext)"
proof (induction pre)
  case Nil
  show ?case
    using assms by (simp add: matches_here_iff replace_extension_no_dot del: matches_here.simps)
next
  case (Cons p ps)
  have "\<not> matches_here (p # ps @ unit_of CHR ''.'' # ext)"
    by (simp add: matches_here_iff del: matches_here.simps)
  then show ?case
    using Cons.IH by (simp del: matches_here.simps)
qed

lemma extension_of_last_dot:
  "unit_of CHR ''.'' \<notin> set ext \<Longrightarrow> extension_of (pre @ unit_of CHR ''.'' # ext) = ext"
  by (simp add: extension_of_def takeWhile_append)

lemma original_stem_last_dot:
  assumes "unit_of CHR ''.'' \<notin> set ext"
  shows "original_stem (pre @ unit_of CHR ''.'' # ext) =
           (if ext \<noteq> [] \<and> unit_of CHR ''/'' \<notin> set ext then pre else pre @ unit_of CHR ''.'' # ext)"
  using assms by (simp add: original_stem_def extension_of_last_dot)

lemma replace_extension_stem: "replace_extension n = original_stem n"
proof (cases "unit_of CHR ''.'' \<in> set n")
  case False
  then show ?thesis
    by (simp add: replace_extension_no_dot original_stem_def)
next
  case True
  then obtain pre ext where n: "n = pre @ unit_of CHR ''.'' # ext" and ext: "unit_of CHR ''.'' \<notin> set ext"
    by (auto dest: split_list_last)
  show ?thesis
    unfolding n using ext by (simp add: replace_extension_last_dot original_stem_last_dot)
qed

lemma cat_stem: "original_stem (js ''cat.jpg'') = js ''cat''"
  by (simp add: original_stem_def extension_of_def js_def unit_of_def)

text \<open>
  C7. With a result, \<^verbatim>\<open>handleDownload\<close> triggers one download, of the processed URL,
  under the name \<^verbatim>\<open>bg-removed-\<close>, then the name of the original with its extension
  stripped, then \<^verbatim>\<open>.png\<close>; it changes nothing else. For \<^verbatim>\<open>cat.jpg\<close> the name is
  \<^verbatim>\<open>bg-removed-cat.png\<close>.
\<close>

theorem download_name:
  assumes "processedImage s = Some img"
  shows "downloads (handleDownload s) =
           downloads s @ [(processed img, js ''bg-removed-'' @ original_stem (name img) @ js ''.png'')] \<and>
         handleDownload s = s\<lparr>downloads := downloads (handleDownload s)\<rparr>"
  using assms by (simp add: handleDownload_def replace_extension_stem)

theorem download_name_witness:
  "processedImage (run cat_session initial) = Some \<lparr>original = 0, processed = 1, name = js ''cat.jpg''\<rparr> \<and>
   downloads (handleDownload (run cat_session initial)) = [(1, js ''bg-removed-cat.png'')]"
proof -
  have img: "processedImage (run cat_session initial) =
      Some \<lparr>original = 0, processed = 1, name = js ''cat.jpg''\<rparr>"
    by (simp add: cat_state)
  have none: "downloads (run cat_session initial) = []"
    by (simp add: cat_state)
  have nm: "js ''bg-removed-'' @ original_stem (js ''cat.jpg'') @ js ''.png'' = js ''bg-removed-cat.png''"
    by (simp add: cat_stem) (simp add: js_def)
  from download_name [OF img] img none nm show ?thesis by simp
qed

end
